theory Spec2Isabelle
  imports Complex_Main "HOL-Library.Sublist"
begin

section \<open>Gong call summary agent: call preparation and prompt composition\<close>

text \<open>
  The agent module configures a tool-loop agent whose \<^verbatim>\<open>prepareCall\<close> hook creates a
  remote sandbox, creates directories in it, writes the generated context files, and
  composes the system instructions from a template; \<^verbatim>\<open>runGongAgent\<close> invokes the agent
  once.  The remote sandbox platform, the model loop, the \<open>generate\<close> method of the agent
  framework and the imported helpers
  (\<^verbatim>\<open>ms\<close>, \<^verbatim>\<open>generateFilesForSandbox\<close>, \<^verbatim>\<open>generateFileTree\<close>, \<^verbatim>\<open>createAgentTools\<close>) are
  not part of the module: they are parameters of the model.  Every awaited call can
  reject; a rejection is the value \<open>Inl e\<close> and ends the computation, as an uncaught
  exception does in an \<^verbatim>\<open>async\<close> function without \<^verbatim>\<open>try\<close>.
\<close>

subsection \<open>Data: the webhook payload, the configuration, files\<close>

text \<open>
  An optional string field of the payload (type \<^verbatim>\<open>string | undefined\<close>) is a
  \<open>string option\<close>, \<open>None\<close> being \<^verbatim>\<open>undefined\<close>.  The duration is a number of whole
  seconds, an \<open>int\<close>: for an integer \<open>d\<close> below \<open>2^53\<close> the quotient \<^verbatim>\<open>d / 60\<close> of the
  source is within \<open>1/128\<close> of the exact quotient, and exact at a tie, so rounding it
  gives what rounding the exact quotient gives.
\<close>

record metaData =
  title :: "string option"
  scheduled :: "string option"
  started :: "string option"
  duration :: "int option"
  system :: "string option"

record party =
  name :: "string option"
  affiliation :: "string option"
  title :: "string option"

record callData =
  metaData :: metaData
  parties :: "party list option"

text \<open>
  Modelled from the spec: the type \<^verbatim>\<open>GongWebhookData\<close> of the module \<^verbatim>\<open>types\<close>, which is not
  among the sources.  The agent module reads \<^verbatim>\<open>callData.metaData\<close> and \<^verbatim>\<open>callData.parties\<close>
  of the payload, with the fields above.  The field \<open>transcript\<close> is the transcript content
  that the specification lists among the attributes of the payload; only the context
  builder reads it.
\<close>

record GongWebhookData =
  callData :: callData
  transcript :: "string option"

record callOptions =
  webhookData :: GongWebhookData
  sfdcAccountId :: "string option"

text \<open>The fields of \<^verbatim>\<open>config\<close> that the module reads.\<close>

record config =
  systemPrompt :: string
  companyName :: string
  sandbox_timeout :: string
  salesforce_enabled :: bool

record VirtualFile =
  path :: string
  content :: string

datatype sandbox = Sandbox nat

text \<open>
  An error: an error of the platform; an error of the model interface, which says whether
  the request can be retried; the retry error of the agent framework, which holds the reason
  and the errors of the attempts.
\<close>

datatype error =
    Error string
  | APICallError string bool
  | RetryError string "error list"

datatype tools = AgentTools sandbox

datatype output_spec = Output_object_agentOutputSchema

text \<open>The settings that the agent passes to \<^verbatim>\<open>prepareCall\<close> beside the options.\<close>

record settings =
  prompt :: string

record prepared =
  settings :: settings
  instructions :: string
  tools :: tools
  prepared_output :: output_spec

type_synonym agentOutput = string

record generateResult =
  result_output :: agentOutput

subsection \<open>Effects: remote calls, their trace, rejection\<close>

text \<open>
  Each remote call that the module makes is recorded, in order, in a trace.  The
  platform decides the outcome of each call.
\<close>

datatype call =
    GenerateCall string callOptions
  | CreateCall "int option"
  | MkDirCall sandbox string
  | WriteFilesCall sandbox "VirtualFile list"
  | ToolLoopCall prepared

record platform =
  Sandbox_create :: "int option \<Rightarrow> error + sandbox"
  mkDir :: "sandbox \<Rightarrow> string \<Rightarrow> error + unit"
  writeFiles :: "sandbox \<Rightarrow> VirtualFile list \<Rightarrow> error + unit"
  toolLoop :: "prepared \<Rightarrow> error + generateResult"

text \<open>The helpers that the module imports from the rest of the repository.\<close>

record deps =
  ms :: "string \<Rightarrow> int option"
  generateFilesForSandbox :: "GongWebhookData \<Rightarrow> string option \<Rightarrow> error + VirtualFile list"
  generateFileTree :: "VirtualFile list \<Rightarrow> string"
  createAgentTools :: "sandbox \<Rightarrow> tools"

text \<open>
  A computation takes the trace so far and returns the extended trace with an error or a
  value.  \<open>await\<close> runs the rest only after a value; \<open>remote\<close> records a call and returns the
  answer of the platform; \<open>local_call\<close> returns the answer of an imported helper.
\<close>

type_synonym 'a io = "call list \<Rightarrow> call list \<times> (error + 'a)"

definition await :: "'a io \<Rightarrow> ('a \<Rightarrow> 'b io) \<Rightarrow> 'b io" where
  "await m k tr = (case m tr of (tr', Inl e) \<Rightarrow> (tr', Inl e) | (tr', Inr x) \<Rightarrow> k x tr')"

definition resolve :: "'a \<Rightarrow> 'a io" where
  "resolve x tr = (tr, Inr x)"

definition remote :: "call \<Rightarrow> (error + 'a) \<Rightarrow> 'a io" where
  "remote c r tr = (tr @ [c], r)"

definition local_call :: "(error + 'a) \<Rightarrow> 'a io" where
  "local_call r tr = (tr, r)"

subsection \<open>JavaScript operators used by the template\<close>

text \<open>
  A string value is truthy unless it is \<^verbatim>\<open>undefined\<close> or empty.  \<open>js_or\<close> is the operator
  \<^verbatim>\<open>||\<close>: its left operand when that is truthy, else its right operand.  \<open>interpolate\<close> is
  the conversion of a value placed in a template literal.  \<open>join\<close> is \<^verbatim>\<open>Array.prototype.join\<close>.
\<close>

definition truthy :: "string option \<Rightarrow> bool" where
  "truthy v = (case v of None \<Rightarrow> False | Some s \<Rightarrow> s \<noteq> [])"

definition js_or :: "string option \<Rightarrow> string option \<Rightarrow> string option" where
  "js_or a b = (if truthy a then a else b)"

definition interpolate :: "string option \<Rightarrow> string" where
  "interpolate v = (case v of None \<Rightarrow> ''undefined'' | Some s \<Rightarrow> s)"

fun join :: "string \<Rightarrow> string list \<Rightarrow> string" where
  "join sep [] = []"
| "join sep [x] = x"
| "join sep (x # y # ys) = x @ sep @ join sep (y # ys)"

text \<open>\<^verbatim>\<open>Math.round\<close>: the nearest integer, a tie going up.\<close>

definition Math_round :: "rat \<Rightarrow> int" where
  "Math_round x = floor (x + 1 / 2)"

text \<open>The decimal rendering of a number that is an integer.\<close>

definition digit :: "nat \<Rightarrow> char" where
  "digit n = ''0123456789'' ! n"

fun digits :: "nat \<Rightarrow> string" where
  "digits n = (if n < 10 then [digit n] else digits (n div 10) @ [digit (n mod 10)])"

declare digits.simps [simp del]

definition Number_toString :: "int \<Rightarrow> string" where
  "Number_toString i = (if i < 0 then ''-'' @ digits (nat (- i)) else digits (nat i))"

subsection \<open>The instructions template\<close>

text \<open>
  The template literal bound to \<^verbatim>\<open>instructions\<close> in \<^verbatim>\<open>prepareCall\<close>; \<open>now\<close> is the value
  of \<^verbatim>\<open>new Date().toISOString()\<close> at the time of the call.
\<close>

definition build_instructions :: "config \<Rightarrow> string \<Rightarrow> string \<Rightarrow> metaData \<Rightarrow> party list \<Rightarrow> string" where
  "build_instructions cfg now fileTree callMeta ps =
     systemPrompt cfg @
     ''\<newline>\<newline>## Call Context\<newline>\<newline>**Call:** '' @
     interpolate (js_or (metaData.title callMeta) (Some ''Untitled Call'')) @
     ''\<newline>**Date:** '' @
     interpolate (js_or (js_or (scheduled callMeta) (started callMeta)) (Some ''Unknown'')) @
     ''\<newline>**Duration:** '' @
     (case duration callMeta of
        None \<Rightarrow> ''Unknown''
      | Some d \<Rightarrow> if d = 0 then ''Unknown''
                 else Number_toString (Math_round (of_int d / 60)) @ '' minutes'') @
     ''\<newline>**System:** '' @
     interpolate (js_or (system callMeta) (Some ''Unknown'')) @
     ''\<newline>\<newline>**Participants:**\<newline>'' @
     join ''\<newline>''
       (map (\<lambda>p. ''- '' @ interpolate (js_or (name p) (Some ''Unknown'')) @
                 '' ('' @ interpolate (js_or (affiliation p) (Some ''Unknown'')) @ '')'' @
                 (if truthy (party.title p) then '' - '' @ interpolate (party.title p) else []))
            ps) @
     ''\<newline>\<newline>## Filesystem Structure\<newline>```\<newline>'' @
     fileTree @
     ''\<newline>```\<newline>\<newline>## Instructions\<newline>\<newline>1. First, explore the call transcript using the executeCommand tool\<newline>2. Search for key topics, objections, and action items\<newline>3. Analyze how objections were handled\<newline>4. Generate a comprehensive summary\<newline>\<newline>## Metadata\<newline>- Current date: '' @
     now @
     ''\<newline>- Company: '' @
     companyName cfg"

subsection \<open>\<^verbatim>\<open>prepareCall\<close>\<close>

definition prepareCall ::
  "config \<Rightarrow> deps \<Rightarrow> platform \<Rightarrow> string \<Rightarrow> callOptions \<Rightarrow> settings \<Rightarrow> prepared io" where
  "prepareCall cfg deps pf now options sts =
     await (remote (CreateCall (ms deps (sandbox_timeout cfg)))
              (Sandbox_create pf (ms deps (sandbox_timeout cfg)))) (\<lambda>sandbox.
     await (remote (MkDirCall sandbox ''gong-calls'') (mkDir pf sandbox ''gong-calls'')) (\<lambda>_.
     await (if salesforce_enabled cfg
            then remote (MkDirCall sandbox ''salesforce'') (mkDir pf sandbox ''salesforce'')
            else resolve ()) (\<lambda>_.
     await (local_call (generateFilesForSandbox deps (webhookData options) (sfdcAccountId options))) (\<lambda>files.
     await (if length files > 0
            then remote (WriteFilesCall sandbox files) (writeFiles pf sandbox files)
            else resolve ()) (\<lambda>_.
       let fileTree = generateFileTree deps files;
           callMeta = metaData (callData (webhookData options));
           ps = (case parties (callData (webhookData options)) of None \<Rightarrow> [] | Some l \<Rightarrow> l)
       in resolve \<lparr>settings = sts,
                   instructions = build_instructions cfg now fileTree callMeta ps,
                   tools = createAgentTools deps sandbox,
                   prepared_output = Output_object_agentOutputSchema\<rparr>)))))"

subsection \<open>The agent and \<^verbatim>\<open>runGongAgent\<close>\<close>



subsection \<open>The agent framework\<close>





subsection \<open>What the platform answers to a call\<close>

definition rejection :: "error + 'a \<Rightarrow> error option" where
  "rejection r = (case r of Inl e \<Rightarrow> Some e | Inr _ \<Rightarrow> None)"





subsection \<open>The context builder, from the specification\<close>

text \<open>
  Modelled from the spec: the entries of the file tree that \<^verbatim>\<open>generateFileTree\<close> of the module
  \<^verbatim>\<open>sandbox-context\<close> produces; the module is not among the sources.  The specification
  describes the file tree as an ordered sequence of path strings, a view derived from the
  list of virtual files that preserves insertion order.
\<close>

definition fileTree_entries :: "VirtualFile list \<Rightarrow> string list" where
  "fileTree_entries files = map path files"

text \<open>
  Modelled from the spec: \<^verbatim>\<open>generateFileTree\<close> of the module \<^verbatim>\<open>sandbox-context\<close>, which is
  not among the sources: the listing for the prompt, one entry on each line.
\<close>

definition generateFileTree_spec :: "VirtualFile list \<Rightarrow> string" where
  "generateFileTree_spec files = join ''\<newline>'' (fileTree_entries files)"

text \<open>
  Modelled from the spec: the rendering of an optional field by the context builder, which
  is not among the sources; the specification says that absent data is rendered as the
  placeholder \<^verbatim>\<open>Unknown\<close>.
\<close>

definition or_Unknown :: "string option \<Rightarrow> string" where
  "or_Unknown v = interpolate (js_or v (Some ''Unknown''))"

text \<open>
  Modelled from the spec: \<^verbatim>\<open>generateFilesForSandbox\<close> of the module \<^verbatim>\<open>sandbox-context\<close>,
  which is not among the sources.  The specification says that, from a payload and an
  optional account identifier of the customer-relations system, it produces an ordered list
  of virtual files (transcript text, participant list, metadata summary, optional record
  dump of that system), that it has no side effect and does not fail, and that it creates
  no file for that system when the integration is disabled.  The file names and the layout
  of the contents are chosen here; the two directories are the ones that \<^verbatim>\<open>prepareCall\<close>
  creates.
\<close>

definition generateFilesForSandbox_spec ::
  "config \<Rightarrow> GongWebhookData \<Rightarrow> string option \<Rightarrow> VirtualFile list" where
  "generateFilesForSandbox_spec cfg wd acct =
     (case transcript wd of
        None \<Rightarrow> []
      | Some t \<Rightarrow> [\<lparr>path = ''gong-calls/transcript.txt'', content = t\<rparr>]) @
     [\<lparr>path = ''gong-calls/participants.txt'',
       content = join ''\<newline>''
         (map (\<lambda>p. or_Unknown (name p) @ '', '' @ or_Unknown (affiliation p) @ '', '' @
                   or_Unknown (party.title p))
              (case parties (callData wd) of None \<Rightarrow> [] | Some l \<Rightarrow> l))\<rparr>,
      \<lparr>path = ''gong-calls/metadata.txt'',
       content = ''Title: '' @ or_Unknown (metaData.title (metaData (callData wd))) @
                 ''\<newline>Scheduled: '' @ or_Unknown (scheduled (metaData (callData wd))) @
                 ''\<newline>Started: '' @ or_Unknown (started (metaData (callData wd))) @
                 ''\<newline>Duration: '' @
                 (case duration (metaData (callData wd)) of
                    None \<Rightarrow> ''Unknown'' | Some d \<Rightarrow> Number_toString d) @
                 ''\<newline>System: '' @ or_Unknown (system (metaData (callData wd)))\<rparr>] @
     (if salesforce_enabled cfg
      then (case acct of
              None \<Rightarrow> []
            | Some a \<Rightarrow> [\<lparr>path = ''salesforce/account.txt'', content = ''Account: '' @ a\<rparr>])
      else [])"

text \<open>
  The library \<^verbatim>\<open>ms\<close> turns a duration string into milliseconds and yields \<^verbatim>\<open>undefined\<close> for
  a string that it does not understand.  This stand-in knows the duration strings of whole
  minutes that the sample configurations use.
\<close>

definition ms_sample :: "string \<Rightarrow> int option" where
  "ms_sample s =
     (if s = ''5m'' then Some 300000 else if s = ''10m'' then Some 600000 else None)"

text \<open>The helpers of the context builder above, with the tools named by their sandbox.\<close>

definition spec_deps :: "config \<Rightarrow> deps" where
  "spec_deps cfg =
     \<lparr>ms = ms_sample,
      generateFilesForSandbox = (\<lambda>wd acct. Inr (generateFilesForSandbox_spec cfg wd acct)),
      generateFileTree = generateFileTree_spec,
      createAgentTools = AgentTools\<rparr>"

text \<open>A path or a call that concerns the customer-relations system.\<close>

definition crm_path :: "string \<Rightarrow> bool" where
  "crm_path p = prefix ''salesforce'' p"

fun crm_call :: "call \<Rightarrow> bool" where
  "crm_call (MkDirCall sb d) = crm_path d"
| "crm_call (WriteFilesCall sb fs) = list_ex (\<lambda>f. crm_path (path f)) fs"
| "crm_call c = False"

subsection \<open>Sample inputs\<close>

definition sample_config :: config where
  "sample_config =
     \<lparr>systemPrompt = ''You are a sales call analyst.'', companyName = ''Acme'',
      sandbox_timeout = ''10m'', salesforce_enabled = False\<rparr>"

definition accepting :: platform where
  "accepting =
     \<lparr>Sandbox_create = (\<lambda>t. Inr (Sandbox 0)),
      mkDir = (\<lambda>sb d. Inr ()),
      writeFiles = (\<lambda>sb fs. Inr ()),
      toolLoop = (\<lambda>prep. Inr \<lparr>result_output = ''summary''\<rparr>)\<rparr>"

definition bare_meta :: metaData where
  "bare_meta = \<lparr>metaData.title = None, scheduled = None, started = None,
                 duration = None, system = None\<rparr>"

definition full_meta :: metaData where
  "full_meta = \<lparr>metaData.title = Some ''Quarterly review'',
                 scheduled = Some ''2024-05-01T10:00:00Z'',
                 started = Some ''2024-05-01T10:02:11Z'',
                 duration = Some 1890, system = Some ''Zoom''\<rparr>"

definition ann :: party where
  "ann = \<lparr>name = Some ''Ann'', affiliation = Some ''External'', party.title = None\<rparr>"

definition nobody :: party where
  "nobody = \<lparr>name = None, affiliation = None, party.title = None\<rparr>"

definition bob :: party where
  "bob = \<lparr>name = Some ''Bob'', affiliation = Some ''Internal'', party.title = Some ''CTO''\<rparr>"

definition payload :: "metaData \<Rightarrow> party list option \<Rightarrow> GongWebhookData" where
  "payload m ps = \<lparr>callData = \<lparr>metaData = m, parties = ps\<rparr>, transcript = Some ''Hello.''\<rparr>"

definition sample_options :: "metaData \<Rightarrow> party list option \<Rightarrow> callOptions" where
  "sample_options m ps = \<lparr>webhookData = payload m ps, sfdcAccountId = Some ''001A''\<rparr>"



definition other_platform :: platform where
  "other_platform = accepting\<lparr>Sandbox_create := (\<lambda>t. Inr (Sandbox 7))\<rparr>"

definition crm_config :: config where
  "crm_config = sample_config\<lparr>salesforce_enabled := True\<rparr>"







section \<open>Basic facts\<close>

lemmas io_defs = await_def resolve_def remote_def local_call_def

lemmas run_defs = prepareCall_def io_defs Let_def

lemmas js_defs = truthy_def js_or_def interpolate_def Number_toString_def digit_def

lemmas sample_defs = ms_sample_def sample_options_def sample_config_def accepting_def bare_meta_def
  full_meta_def ann_def nobody_def bob_def payload_def spec_deps_def
  generateFilesForSandbox_spec_def generateFileTree_spec_def fileTree_entries_def
  or_Unknown_def

lemma digits_numeral [simp]:
  "digits (numeral k) =
     (if numeral k < (10::nat) then [digit (numeral k)]
      else digits (numeral k div 10) @ [digit (numeral k mod 10)])"
  by (rule digits.simps)

lemma digits_0 [simp]: "digits 0 = ''0''"
  by (simp add: digits.simps digit_def)

lemma digits_1 [simp]: "digits 1 = ''1''"
  by (simp add: digits.simps digit_def)

text \<open>Rounding the quotient by sixty, in integer arithmetic.\<close>

lemma Math_round_div60: "Math_round (of_int d / 60) = (d + 30) div 60"
proof -
  have "(of_int d / 60 + 1 / 2 :: rat) = of_int (d + 30) / of_int 60"
    by (simp add: field_simps)
  then show ?thesis
    unfolding Math_round_def by (simp only: floor_divide_of_int_eq)
qed


text \<open>What \<^verbatim>\<open>prepareCall\<close> returns holds the template applied to the payload.\<close>

lemma prepareCall_returns:
  assumes "snd (prepareCall cfg deps pf now options sts tr) = Inr prep"
  shows "\<exists>files. generateFilesForSandbox deps (webhookData options) (sfdcAccountId options) = Inr files \<and>
    instructions prep = build_instructions cfg now (generateFileTree deps files)
              (metaData (callData (webhookData options)))
              (case parties (callData (webhookData options)) of None \<Rightarrow> [] | Some l \<Rightarrow> l)"
  using assms
  by (auto simp: prepareCall_def io_defs Let_def split: sum.splits if_splits)

section \<open>The duration line\<close>

text \<open>
  C9.  When the payload has a duration \<open>d > 0\<close>, the instructions that \<^verbatim>\<open>prepareCall\<close>
  returns render it as \<^verbatim>\<open>Math.round(d / 60)\<close> followed by \<^verbatim>\<open> minutes\<close>; when the duration
  is absent or is \<open>0\<close>, they render \<^verbatim>\<open>Unknown\<close>.
\<close>

theorem duration_rendering:
  assumes "snd (prepareCall cfg deps pf now options sts tr) = Inr prep"
  shows "(\<forall>d. duration (metaData (callData (webhookData options))) = Some d \<and> 0 < d \<longrightarrow>
            (\<exists>pre post. instructions prep =
               systemPrompt cfg @ pre @ ''\<newline>**Duration:** '' @
               Number_toString (Math_round (of_int d / 60)) @ '' minutes'' @
               ''\<newline>**System:** '' @ post)) \<and>
         (duration (metaData (callData (webhookData options))) = None \<or>
          duration (metaData (callData (webhookData options))) = Some 0 \<longrightarrow>
            (\<exists>pre post. instructions prep =
               systemPrompt cfg @ pre @ ''\<newline>**Duration:** Unknown'' @
               ''\<newline>**System:** '' @ post))"
proof -
  let ?m = "metaData (callData (webhookData options))"
  from prepareCall_returns[OF assms] obtain files where
    i: "instructions prep = build_instructions cfg now (generateFileTree deps files) ?m
              (case parties (callData (webhookData options)) of None \<Rightarrow> [] | Some l \<Rightarrow> l)"
    by blast
  let ?pre = "''\<newline>\<newline>## Call Context\<newline>\<newline>**Call:** '' @
     interpolate (js_or (metaData.title ?m) (Some ''Untitled Call'')) @
     ''\<newline>**Date:** '' @
     interpolate (js_or (js_or (scheduled ?m) (started ?m)) (Some ''Unknown''))"
  show ?thesis
    unfolding i build_instructions_def
    apply (intro conjI allI impI)
     apply (rule exI[of _ ?pre])
     apply (rule exI)
     apply simp
    apply (rule exI[of _ ?pre])
    apply (rule exI)
    apply auto
    done
qed

theorem duration_rendering_witness:
  "(\<exists>prep pre post.
      snd (prepareCall sample_config (spec_deps sample_config) accepting ''2024-05-02T08:00:00.000Z''
             (sample_options full_meta (Some [ann])) \<lparr>prompt = ''p''\<rparr> []) = Inr prep \<and>
      instructions prep = systemPrompt sample_config @ pre @
        ''\<newline>**Duration:** 32 minutes\<newline>**System:** '' @ post) \<and>
   (\<exists>prep pre post.
      snd (prepareCall sample_config (spec_deps sample_config) accepting ''2024-05-02T08:00:00.000Z''
             (sample_options bare_meta None) \<lparr>prompt = ''p''\<rparr> []) = Inr prep \<and>
      instructions prep = systemPrompt sample_config @ pre @
        ''\<newline>**Duration:** Unknown\<newline>**System:** '' @ post)"
proof -
  obtain p1 where r1:
    "snd (prepareCall sample_config (spec_deps sample_config) accepting ''2024-05-02T08:00:00.000Z''
             (sample_options full_meta (Some [ann])) \<lparr>prompt = ''p''\<rparr> []) = Inr p1"
    by (simp add: sample_defs run_defs)
  obtain p2 where r2:
    "snd (prepareCall sample_config (spec_deps sample_config) accepting ''2024-05-02T08:00:00.000Z''
             (sample_options bare_meta None) \<lparr>prompt = ''p''\<rparr> []) = Inr p2"
    by (simp add: sample_defs run_defs)
  have d1: "duration (metaData (callData (webhookData (sample_options full_meta (Some [ann]))))) = Some 1890"
    by (simp add: sample_defs)
  have d2: "duration (metaData (callData (webhookData (sample_options bare_meta None)))) = None"
    by (simp add: sample_defs)
  have n: "Number_toString (Math_round (of_int 1890 / 60)) = ''32''"
    using Math_round_div60 [of 1890] by (simp add: js_defs)
  from duration_rendering [OF r1] d1 n have
    "\<exists>pre post. instructions p1 = systemPrompt sample_config @ pre @
        ''\<newline>**Duration:** 32 minutes\<newline>**System:** '' @ post"
    by simp
  moreover from duration_rendering [OF r2] d2 have
    "\<exists>pre post. instructions p2 = systemPrompt sample_config @ pre @
        ''\<newline>**Duration:** Unknown\<newline>**System:** '' @ post"
    by simp
  ultimately show ?thesis using r1 r2 by blast
qed


lemma spec_deps_files:
  "generateFilesForSandbox (spec_deps cfg) wd acct = Inr (generateFilesForSandbox_spec cfg wd acct)"
  by (simp add: spec_deps_def)


section \<open>The call metadata lines\<close>




section \<open>The participants section\<close>






section \<open>Determinism of the instructions\<close>

text \<open>When the context builder rejects, \<^verbatim>\<open>prepareCall\<close> does not return.\<close>

lemma no_files_no_return:
  assumes "generateFilesForSandbox deps (webhookData options) (sfdcAccountId options) = Inl e"
  shows "snd (prepareCall cfg deps pf now options sts tr) \<noteq> Inr prep"
proof
  assume "snd (prepareCall cfg deps pf now options sts tr) = Inr prep"
  from prepareCall_returns [OF this] assms show False by simp
qed

text \<open>The time of the call occurs once in the template, in the line of the current date.\<close>

lemma build_instructions_timestamp:
  "\<exists>body. \<forall>now. build_instructions cfg now ft m ps =
      body @ ''- Current date: '' @ now @ ''\<newline>- Company: '' @ companyName cfg"
proof -
  have "build_instructions cfg now ft m ps =
      (systemPrompt cfg @
     ''\<newline>\<newline>## Call Context\<newline>\<newline>**Call:** '' @
     interpolate (js_or (metaData.title m) (Some ''Untitled Call'')) @
     ''\<newline>**Date:** '' @
     interpolate (js_or (js_or (scheduled m) (started m)) (Some ''Unknown'')) @
     ''\<newline>**Duration:** '' @
     (case duration m of
        None \<Rightarrow> ''Unknown''
      | Some d \<Rightarrow> if d = 0 then ''Unknown''
                 else Number_toString (Math_round (of_int d / 60)) @ '' minutes'') @
     ''\<newline>**System:** '' @
     interpolate (js_or (system m) (Some ''Unknown'')) @
     ''\<newline>\<newline>**Participants:**\<newline>'' @
     join ''\<newline>''
       (map (\<lambda>p. ''- '' @ interpolate (js_or (name p) (Some ''Unknown'')) @
                 '' ('' @ interpolate (js_or (affiliation p) (Some ''Unknown'')) @ '')'' @
                 (if truthy (party.title p) then '' - '' @ interpolate (party.title p) else []))
            ps) @
     ''\<newline>\<newline>## Filesystem Structure\<newline>```\<newline>'' @
     ft @
     ''\<newline>```\<newline>\<newline>## Instructions\<newline>\<newline>1. First, explore the call transcript using the executeCommand tool\<newline>2. Search for key topics, objections, and action items\<newline>3. Analyze how objections were handled\<newline>4. Generate a comprehensive summary\<newline>\<newline>## Metadata\<newline>'') @ ''- Current date: '' @ now @ ''\<newline>- Company: '' @ companyName cfg" for now
    by (simp add: build_instructions_def)
  then show ?thesis by (intro exI allI)
qed

text \<open>
  C3.  For a fixed configuration and fixed options, every run of \<^verbatim>\<open>prepareCall\<close> that returns,
  whatever the platform, the settings and the time of the call, returns the same instructions
  apart from the time in the line of the current date; two runs at the same time return the
  same instructions.
\<close>

theorem timestamp_only_variation:
  "\<exists>body. \<forall>pf now sts tr prep.
      snd (prepareCall cfg deps pf now options sts tr) = Inr prep \<longrightarrow>
      instructions prep = body @ ''- Current date: '' @ now @ ''\<newline>- Company: '' @ companyName cfg"
proof (cases "generateFilesForSandbox deps (webhookData options) (sfdcAccountId options)")
  case (Inl e)
  have "\<forall>pf now sts tr prep.
      snd (prepareCall cfg deps pf now options sts tr) = Inr prep \<longrightarrow>
      instructions prep = [] @ ''- Current date: '' @ now @ ''\<newline>- Company: '' @ companyName cfg"
    using no_files_no_return [OF Inl] by simp
  show ?thesis
    by (rule exI [of _ "[]"]) fact
next
  case (Inr files)
  from build_instructions_timestamp [of cfg "generateFileTree deps files"
      "metaData (callData (webhookData options))"
      "case parties (callData (webhookData options)) of None \<Rightarrow> [] | Some l \<Rightarrow> l"]
  obtain body where
    b: "\<forall>now. build_instructions cfg now (generateFileTree deps files)
          (metaData (callData (webhookData options)))
          (case parties (callData (webhookData options)) of None \<Rightarrow> [] | Some l \<Rightarrow> l) =
        body @ ''- Current date: '' @ now @ ''\<newline>- Company: '' @ companyName cfg"
    ..
  have "\<forall>pf now sts tr prep.
      snd (prepareCall cfg deps pf now options sts tr) = Inr prep \<longrightarrow>
      instructions prep = body @ ''- Current date: '' @ now @ ''\<newline>- Company: '' @ companyName cfg"
  proof (intro allI impI)
    fix pf now sts tr prep
    assume "snd (prepareCall cfg deps pf now options sts tr) = Inr prep"
    from prepareCall_returns [OF this] Inr b
    show "instructions prep =
        body @ ''- Current date: '' @ now @ ''\<newline>- Company: '' @ companyName cfg"
      by simp
  qed
  show ?thesis
    by (rule exI [of _ body]) fact
qed

theorem timestamp_only_variation_witness:
  "\<exists>body p1 p2.
     snd (prepareCall sample_config (spec_deps sample_config) accepting ''2024-05-02T08:00:00.000Z''
            (sample_options full_meta (Some [ann, bob])) \<lparr>prompt = ''p''\<rparr> []) = Inr p1 \<and>
     snd (prepareCall sample_config (spec_deps sample_config) other_platform ''2024-05-02T08:00:07.312Z''
            (sample_options full_meta (Some [ann, bob])) \<lparr>prompt = ''p''\<rparr> []) = Inr p2 \<and>
     instructions p1 = body @ ''- Current date: 2024-05-02T08:00:00.000Z\<newline>- Company: Acme'' \<and>
     instructions p2 = body @ ''- Current date: 2024-05-02T08:00:07.312Z\<newline>- Company: Acme''"
proof -
  obtain p1 where r1:
    "snd (prepareCall sample_config (spec_deps sample_config) accepting ''2024-05-02T08:00:00.000Z''
            (sample_options full_meta (Some [ann, bob])) \<lparr>prompt = ''p''\<rparr> []) = Inr p1"
    by (simp add: sample_defs run_defs)
  obtain p2 where r2:
    "snd (prepareCall sample_config (spec_deps sample_config) other_platform ''2024-05-02T08:00:07.312Z''
            (sample_options full_meta (Some [ann, bob])) \<lparr>prompt = ''p''\<rparr> []) = Inr p2"
    by (simp add: other_platform_def sample_defs run_defs)
  from timestamp_only_variation [of sample_config "spec_deps sample_config"
      "sample_options full_meta (Some [ann, bob])"]
  obtain body where b: "\<forall>pf now sts tr prep.
      snd (prepareCall sample_config (spec_deps sample_config) pf now
             (sample_options full_meta (Some [ann, bob])) sts tr) = Inr prep \<longrightarrow>
      instructions prep = body @ ''- Current date: '' @ now @ ''\<newline>- Company: '' @ companyName sample_config"
    ..
  have i1: "instructions p1 = body @ ''- Current date: 2024-05-02T08:00:00.000Z\<newline>- Company: Acme''"
    using b [rule_format, OF r1] by (simp add: sample_config_def)
  have i2: "instructions p2 = body @ ''- Current date: 2024-05-02T08:00:07.312Z\<newline>- Company: Acme''"
    using b [rule_format, OF r2] by (simp add: sample_config_def)
  show ?thesis
    apply (rule exI [of _ body], rule exI [of _ p1], rule exI [of _ p2])
    apply (intro conjI)
       apply (rule r1)
      apply (rule r2)
     apply (rule i1)
    apply (rule i2)
    done
qed

section \<open>The remote calls of \<^verbatim>\<open>prepareCall\<close>\<close>





section \<open>The single invocation\<close>

lemma rejection_simps [simp]:
  "rejection (Inl e) = Some e" "rejection (Inr x) = None"
  by (simp_all add: rejection_def)








section \<open>The context builder\<close>

text \<open>The files that \<^verbatim>\<open>prepareCall\<close> writes are the ones that the context builder returned.\<close>

lemma written_files:
  "WriteFilesCall sb fs \<in> set (fst (prepareCall cfg deps pf now options sts [])) \<Longrightarrow>
   generateFilesForSandbox deps (webhookData options) (sfdcAccountId options) = Inr fs"
  by (auto simp: run_defs split: sum.splits if_splits)

text \<open>The file tree occurs in the template inside the code fence of the filesystem section.\<close>

lemma build_instructions_fileTree:
  "\<exists>pre post. build_instructions cfg now ft m ps =
     pre @ ''## Filesystem Structure\<newline>```\<newline>'' @ ft @ ''\<newline>```\<newline>'' @ post"
  unfolding build_instructions_def
  apply (rule exI [of _ "systemPrompt cfg @
     ''\<newline>\<newline>## Call Context\<newline>\<newline>**Call:** '' @
     interpolate (js_or (metaData.title m) (Some ''Untitled Call'')) @
     ''\<newline>**Date:** '' @
     interpolate (js_or (js_or (scheduled m) (started m)) (Some ''Unknown'')) @
     ''\<newline>**Duration:** '' @
     (case duration m of
        None \<Rightarrow> ''Unknown''
      | Some d \<Rightarrow> if d = 0 then ''Unknown''
                 else Number_toString (Math_round (of_int d / 60)) @ '' minutes'') @
     ''\<newline>**System:** '' @
     interpolate (js_or (system m) (Some ''Unknown'')) @
     ''\<newline>\<newline>**Participants:**\<newline>'' @
     join ''\<newline>''
       (map (\<lambda>p. ''- '' @ interpolate (js_or (name p) (Some ''Unknown'')) @
                 '' ('' @ interpolate (js_or (affiliation p) (Some ''Unknown'')) @ '')'' @
                 (if truthy (party.title p) then '' - '' @ interpolate (party.title p) else []))
            ps) @
     ''\<newline>\<newline>''"])
  apply (rule exI)
  apply simp
  done

lemma crm_path_simps [simp]:
  "\<not> crm_path ''gong-calls''"
  "\<not> crm_path ''gong-calls/transcript.txt''"
  "\<not> crm_path ''gong-calls/participants.txt''"
  "\<not> crm_path ''gong-calls/metadata.txt''"
  "crm_path ''salesforce''"
  "crm_path ''salesforce/account.txt''"
  by (simp_all add: crm_path_def)

text \<open>
  C2.  With the integration of the customer-relations system disabled, \<^verbatim>\<open>prepareCall\<close> creates
  no directory for that system, whatever context builder it is given; the context builder of
  the specification produces no file for that system, even when an account identifier is
  supplied; so with that builder no call of \<^verbatim>\<open>prepareCall\<close> concerns that system.
\<close>

theorem crm_disabled_no_crm_artifacts:
  assumes "\<not> salesforce_enabled cfg"
  shows "(\<forall>sb d. MkDirCall sb d \<in> set (fst (prepareCall cfg deps pf now options sts [])) \<longrightarrow>
            \<not> crm_path d) \<and>
         (\<forall>f\<in>set (generateFilesForSandbox_spec cfg (webhookData options) (sfdcAccountId options)).
            \<not> crm_path (path f)) \<and>
         (\<forall>c\<in>set (fst (prepareCall cfg (spec_deps cfg) pf now options sts [])). \<not> crm_call c)"
proof (intro conjI)
  show "\<forall>sb d. MkDirCall sb d \<in> set (fst (prepareCall cfg deps pf now options sts [])) \<longrightarrow>
            \<not> crm_path d"
    using assms by (auto simp: run_defs split: sum.splits if_splits)
  show files: "\<forall>f\<in>set (generateFilesForSandbox_spec cfg (webhookData options) (sfdcAccountId options)).
            \<not> crm_path (path f)"
    using assms by (auto simp: generateFilesForSandbox_spec_def split: option.splits)
  show "\<forall>c\<in>set (fst (prepareCall cfg (spec_deps cfg) pf now options sts [])). \<not> crm_call c"
    using assms files
    by (auto simp: run_defs spec_deps_def list_ex_iff split: sum.splits if_splits)
qed

theorem crm_disabled_no_crm_artifacts_witness:
  "\<not> salesforce_enabled sample_config \<and>
   sfdcAccountId (sample_options full_meta (Some [ann])) = Some ''001A'' \<and>
   \<not> list_ex crm_call
     (fst (prepareCall sample_config (spec_deps sample_config) accepting ''2024-05-02T08:00:00.000Z''
        (sample_options full_meta (Some [ann])) \<lparr>prompt = ''p''\<rparr> [])) \<and>
   \<not> list_ex (\<lambda>f. crm_path (path f))
     (generateFilesForSandbox_spec sample_config (payload full_meta (Some [ann])) (Some ''001A''))"
proof -
  have s: "\<not> salesforce_enabled sample_config"
    by (simp add: sample_config_def)
  have a: "sfdcAccountId (sample_options full_meta (Some [ann])) = Some ''001A''"
    by (simp add: sample_options_def)
  have w: "webhookData (sample_options full_meta (Some [ann])) = payload full_meta (Some [ann])"
    by (simp add: sample_options_def)
  from crm_disabled_no_crm_artifacts [OF s, of _ _ _ "sample_options full_meta (Some [ann])"] s a w
  show ?thesis
    by (simp add: list_ex_iff)
qed

text \<open>With the integration enabled and an account identifier, there are such calls.\<close>

lemma crm_enabled_account_file:
  "list_ex crm_call
     (fst (prepareCall crm_config (spec_deps crm_config) accepting ''2024-05-02T08:00:00.000Z''
        (sample_options full_meta (Some [ann])) \<lparr>prompt = ''p''\<rparr> []))"
  by (simp add: run_defs crm_config_def sample_config_def spec_deps_def accepting_def
        sample_options_def generateFilesForSandbox_spec_def payload_def)

text \<open>
  C6.  The file tree has exactly one entry for each virtual file, its path, in the order of
  the list; the list that the context builder of the specification produces is not empty
  when the payload has transcript content, and holds that content.  With that builder, the
  files that \<^verbatim>\<open>prepareCall\<close> writes are the generated ones, and the filesystem section of the
  instructions lists their paths, one on each line, in the same order.
\<close>

theorem fileTree_lists_files:
  "fileTree_entries fs = map path fs \<and>
   length (fileTree_entries fs) = length fs \<and>
   (\<forall>i<length fs. fileTree_entries fs ! i = path (fs ! i)) \<and>
   generateFileTree_spec fs = join ''\<newline>'' (fileTree_entries fs) \<and>
   (\<forall>t. transcript wd = Some t \<longrightarrow>
      generateFilesForSandbox_spec cfg wd acct \<noteq> [] \<and>
      list_ex (\<lambda>f. content f = t) (generateFilesForSandbox_spec cfg wd acct)) \<and>
   (\<forall>sb written prep.
      WriteFilesCall sb written \<in> set (fst (prepareCall cfg (spec_deps cfg) pf now options sts [])) \<and>
      snd (prepareCall cfg (spec_deps cfg) pf now options sts []) = Inr prep \<longrightarrow>
        written = generateFilesForSandbox_spec cfg (webhookData options) (sfdcAccountId options) \<and>
        (\<exists>pre post. instructions prep =
           pre @ ''## Filesystem Structure\<newline>```\<newline>'' @
           join ''\<newline>'' (map path written) @ ''\<newline>```\<newline>'' @ post))"
proof (intro conjI allI impI)
  show "fileTree_entries fs = map path fs"
    by (simp add: fileTree_entries_def)
  show "length (fileTree_entries fs) = length fs"
    by (simp add: fileTree_entries_def)
  show "generateFileTree_spec fs = join ''\<newline>'' (fileTree_entries fs)"
    by (simp add: generateFileTree_spec_def)
next
  fix i assume "i < length fs"
  then show "fileTree_entries fs ! i = path (fs ! i)"
    by (simp add: fileTree_entries_def)
next
  fix t assume t: "transcript wd = Some t"
  show "generateFilesForSandbox_spec cfg wd acct \<noteq> []"
    using t by (simp add: generateFilesForSandbox_spec_def)
  show "list_ex (\<lambda>f. content f = t) (generateFilesForSandbox_spec cfg wd acct)"
    using t by (simp add: generateFilesForSandbox_spec_def)
next
  fix sb written prep
  assume a: "WriteFilesCall sb written \<in> set (fst (prepareCall cfg (spec_deps cfg) pf now options sts [])) \<and>
      snd (prepareCall cfg (spec_deps cfg) pf now options sts []) = Inr prep"
  from a written_files [of sb written cfg "spec_deps cfg" pf now options sts]
  show w: "written = generateFilesForSandbox_spec cfg (webhookData options) (sfdcAccountId options)"
    by (simp add: spec_deps_files)
  from a prepareCall_returns [of cfg "spec_deps cfg" pf now options sts "[]" prep]
  have "instructions prep = build_instructions cfg now (generateFileTree_spec written)
              (metaData (callData (webhookData options)))
              (case parties (callData (webhookData options)) of None \<Rightarrow> [] | Some l \<Rightarrow> l)"
    by (simp add: spec_deps_files w) (simp add: spec_deps_def)
  with build_instructions_fileTree [of cfg now "generateFileTree_spec written"
      "metaData (callData (webhookData options))"
      "case parties (callData (webhookData options)) of None \<Rightarrow> [] | Some l \<Rightarrow> l"]
  show "\<exists>pre post. instructions prep =
           pre @ ''## Filesystem Structure\<newline>```\<newline>'' @
           join ''\<newline>'' (map path written) @ ''\<newline>```\<newline>'' @ post"
    by (simp add: generateFileTree_spec_def fileTree_entries_def)
qed

theorem fileTree_lists_files_witness:
  "transcript (payload full_meta (Some [ann])) = Some ''Hello.'' \<and>
   generateFilesForSandbox_spec sample_config (payload full_meta (Some [ann])) (Some ''001A'') \<noteq> [] \<and>
   fileTree_entries
     (generateFilesForSandbox_spec sample_config (payload full_meta (Some [ann])) (Some ''001A'')) =
     [''gong-calls/transcript.txt'', ''gong-calls/participants.txt'', ''gong-calls/metadata.txt''] \<and>
   fileTree_entries
     (generateFilesForSandbox_spec sample_config (payload full_meta (Some [ann])) (Some ''001A'')) ! 0 =
     path (generateFilesForSandbox_spec sample_config (payload full_meta (Some [ann])) (Some ''001A'') ! 0) \<and>
   (\<exists>prep pre post.
      snd (prepareCall sample_config (spec_deps sample_config) accepting ''2024-05-02T08:00:00.000Z''
             (sample_options full_meta (Some [ann])) \<lparr>prompt = ''p''\<rparr> []) = Inr prep \<and>
      instructions prep =
        pre @ ''## Filesystem Structure\<newline>```\<newline>gong-calls/transcript.txt\<newline>gong-calls/participants.txt\<newline>gong-calls/metadata.txt\<newline>```\<newline>'' @ post)"
proof -
  let ?fs = "generateFilesForSandbox_spec sample_config (payload full_meta (Some [ann])) (Some ''001A'')"
  let ?run = "prepareCall sample_config (spec_deps sample_config) accepting ''2024-05-02T08:00:00.000Z''
             (sample_options full_meta (Some [ann])) \<lparr>prompt = ''p''\<rparr> []"
  have t: "transcript (payload full_meta (Some [ann])) = Some ''Hello.''"
    by (simp add: payload_def)
  have p: "map path ?fs =
     [''gong-calls/transcript.txt'', ''gong-calls/participants.txt'', ''gong-calls/metadata.txt'']"
    by (simp add: generateFilesForSandbox_spec_def payload_def sample_config_def)
  then have l: "0 < length ?fs"
    by (cases ?fs) simp_all
  have mem: "WriteFilesCall (Sandbox 0) ?fs \<in> set (fst ?run)"
    by (simp add: run_defs sample_config_def spec_deps_def accepting_def
        sample_options_def generateFilesForSandbox_spec_def payload_def)
  obtain prep where r: "snd ?run = Inr prep"
    by (simp add: sample_defs run_defs)
  note inst = fileTree_lists_files [of ?fs "payload full_meta (Some [ann])" sample_config
      "Some ''001A''" accepting "''2024-05-02T08:00:00.000Z''"
      "sample_options full_meta (Some [ann])" "\<lparr>prompt = ''p''\<rparr>"]
  note e = inst [THEN conjunct1]
  note i = inst [THEN conjunct2, THEN conjunct2, THEN conjunct1, rule_format, OF l]
  note n = inst [THEN conjunct2, THEN conjunct2, THEN conjunct2, THEN conjunct2, THEN conjunct1,
      rule_format, OF t, THEN conjunct1]
  note w = inst [THEN conjunct2, THEN conjunct2, THEN conjunct2, THEN conjunct2, THEN conjunct2,
      rule_format, OF conjI [OF mem r], THEN conjunct2]
  from w p obtain pre post where "instructions prep =
        pre @ ''## Filesystem Structure\<newline>```\<newline>gong-calls/transcript.txt\<newline>gong-calls/participants.txt\<newline>gong-calls/metadata.txt\<newline>```\<newline>'' @ post"
    by (elim exE) simp
  with r have "\<exists>prep pre post. snd ?run = Inr prep \<and> instructions prep =
        pre @ ''## Filesystem Structure\<newline>```\<newline>gong-calls/transcript.txt\<newline>gong-calls/participants.txt\<newline>gong-calls/metadata.txt\<newline>```\<newline>'' @ post"
    apply -
    apply (rule exI [of _ prep], rule exI [of _ pre], rule exI [of _ post])
    apply (erule conjI)
    apply assumption
    done
  with t n e i p show ?thesis
    by simp
qed

end
